theory Spec2Isabelle
  imports Complex_Main "HOL-Library.Multiset" "HOL-Library.Sublist"
begin

section \<open>JavaScript numbers\<close>

text \<open>
  The scoring module computes with JavaScript Numbers. A Number is modelled as a finite
  value, one of the two infinities, or NaN. A finite Number is modelled by the real it
  denotes: the arithmetic below is exact, so the rounding error and the overflow of
  IEEE-754 doubles are not part of the model, and there is a single zero (no negative
  zero). What is kept of IEEE-754 is what the functions of the module can observe
  without rounding: NaN and its propagation, division by zero, the infinities, and
  comparisons that are false on NaN.
\<close>

datatype jsnum = Fin real | PosInf | NegInf | NaN

text \<open>Unary minus.\<close>

fun js_neg :: "jsnum \<Rightarrow> jsnum" where
  "js_neg (Fin a) = Fin (- a)"
| "js_neg PosInf = NegInf"
| "js_neg NegInf = PosInf"
| "js_neg NaN = NaN"

text \<open>The operator \<open>+\<close> on two Numbers.\<close>

fun js_add :: "jsnum \<Rightarrow> jsnum \<Rightarrow> jsnum" where
  "js_add (Fin a) (Fin b) = Fin (a + b)"
| "js_add (Fin a) PosInf = PosInf"
| "js_add (Fin a) NegInf = NegInf"
| "js_add PosInf (Fin b) = PosInf"
| "js_add PosInf PosInf = PosInf"
| "js_add PosInf NegInf = NaN"
| "js_add NegInf (Fin b) = NegInf"
| "js_add NegInf PosInf = NaN"
| "js_add NegInf NegInf = NegInf"
| "js_add NaN y = NaN"
| "js_add x NaN = NaN"

text \<open>The operator \<open>-\<close> on two Numbers.\<close>

definition js_sub :: "jsnum \<Rightarrow> jsnum \<Rightarrow> jsnum" where
  "js_sub x y = js_add x (js_neg y)"

text \<open>The operator \<open>*\<close>: an infinity times zero is NaN, otherwise the signs multiply.\<close>

definition inf_of_sign :: "real \<Rightarrow> jsnum" where
  "inf_of_sign s = (if s = 0 then NaN else if 0 < s then PosInf else NegInf)"

fun js_mul :: "jsnum \<Rightarrow> jsnum \<Rightarrow> jsnum" where
  "js_mul (Fin a) (Fin b) = Fin (a * b)"
| "js_mul (Fin a) PosInf = inf_of_sign a"
| "js_mul (Fin a) NegInf = inf_of_sign (- a)"
| "js_mul PosInf (Fin b) = inf_of_sign b"
| "js_mul PosInf PosInf = PosInf"
| "js_mul PosInf NegInf = NegInf"
| "js_mul NegInf (Fin b) = inf_of_sign (- b)"
| "js_mul NegInf PosInf = NegInf"
| "js_mul NegInf NegInf = PosInf"
| "js_mul NaN y = NaN"
| "js_mul x NaN = NaN"

text \<open>
  The operator \<open>/\<close>: a finite nonzero value divided by zero is an infinity of its
  sign, zero divided by zero is NaN, a finite value divided by an infinity is zero, an
  infinity divided by an infinity is NaN. No division raises.
\<close>

fun js_div :: "jsnum \<Rightarrow> jsnum \<Rightarrow> jsnum" where
  "js_div (Fin a) (Fin b) = (if b = 0 then inf_of_sign a else Fin (a / b))"
| "js_div (Fin a) PosInf = Fin 0"
| "js_div (Fin a) NegInf = Fin 0"
| "js_div PosInf (Fin b) = (if 0 \<le> b then PosInf else NegInf)"
| "js_div NegInf (Fin b) = (if 0 \<le> b then NegInf else PosInf)"
| "js_div PosInf PosInf = NaN"
| "js_div PosInf NegInf = NaN"
| "js_div NegInf PosInf = NaN"
| "js_div NegInf NegInf = NaN"
| "js_div NaN y = NaN"
| "js_div x NaN = NaN"

text \<open>The comparison \<open>x > y\<close>: false as soon as one side is NaN.\<close>

fun js_gt :: "jsnum \<Rightarrow> jsnum \<Rightarrow> bool" where
  "js_gt (Fin a) (Fin b) = (b < a)"
| "js_gt (Fin a) PosInf = False"
| "js_gt (Fin a) NegInf = True"
| "js_gt PosInf (Fin b) = True"
| "js_gt PosInf PosInf = False"
| "js_gt PosInf NegInf = True"
| "js_gt NegInf y = False"
| "js_gt NaN y = False"
| "js_gt x NaN = False"

text \<open>\<open>Math.max\<close> and \<open>Math.min\<close> of two Numbers: NaN as soon as one argument is NaN.\<close>

definition Math_max :: "jsnum \<Rightarrow> jsnum \<Rightarrow> jsnum" where
  "Math_max x y = (if x = NaN \<or> y = NaN then NaN else if js_gt y x then y else x)"

definition Math_min :: "jsnum \<Rightarrow> jsnum \<Rightarrow> jsnum" where
  "Math_min x y = (if x = NaN \<or> y = NaN then NaN else if js_gt x y then y else x)"

text \<open>
  \<open>Math.round\<close>: the nearest integer, a tie going to the larger one; the infinities and
  NaN are returned as they are.
\<close>

fun Math_round :: "jsnum \<Rightarrow> jsnum" where
  "Math_round (Fin a) = Fin (of_int \<lfloor>a + 1 / 2\<rfloor>)"
| "Math_round x = x"

text \<open>
  Reading a property that an object may lack gives \<open>undefined\<close> (here \<open>None\<close>); an
  arithmetic operator or a comparison converts \<open>undefined\<close> to NaN.
\<close>

fun ToNumber :: "jsnum option \<Rightarrow> jsnum" where
  "ToNumber None = NaN"
| "ToNumber (Some x) = x"

section \<open>Arrays\<close>





text \<open>
  \<open>Array.prototype.sort(comparefn)\<close>. The language standard requires a stable sort, and
  it reads a NaN returned by the comparison function as zero. It is modelled by stable
  insertion: an element moves behind its right neighbour only when the comparison
  function returns a value greater than zero. Where the comparison function returns NaN
  for some pair, the standard leaves the order to the implementation; the theorems about
  the order below are stated for scores that are not NaN.
\<close>

fun sort_insert :: "('a \<Rightarrow> 'a \<Rightarrow> jsnum) \<Rightarrow> 'a \<Rightarrow> 'a list \<Rightarrow> 'a list" where
  "sort_insert cmp x [] = [x]"
| "sort_insert cmp x (y # ys) =
     (if js_gt (cmp x y) (Fin 0) then y # sort_insert cmp x ys else x # y # ys)"

definition js_sort :: "('a \<Rightarrow> 'a \<Rightarrow> jsnum) \<Rightarrow> 'a list \<Rightarrow> 'a list" where
  "js_sort cmp xs = foldr (sort_insert cmp) xs []"

section \<open>The data\<close>

text \<open>
  A player object. The numeric properties may be missing, so each is optional; the
  properties the scoring module never reads (next opponent, recommendation and so on)
  are the extension of the record, which every function below carries along.
\<close>

record PlayerRecord =
  player_id :: int
  player_name :: string
  team :: string
  position :: string
  performance_score :: "jsnum option"
  projection_score :: "jsnum option"
  sleeper_rating :: "jsnum option"
  power_score :: "jsnum option"
  expert_consensus_rank :: "jsnum option"
  risk_level :: "string option"



section \<open>The scoring module\<close>

text \<open>
  \<^verbatim>\<open>Math.max(0, Math.min(100, ((score - min) / (max - min)) * 100))\<close>
\<close>

definition normalizeScore :: "jsnum \<Rightarrow> jsnum \<Rightarrow> jsnum \<Rightarrow> jsnum" where
  "normalizeScore score min' max' =
     Math_max (Fin 0)
       (Math_min (Fin 100) (js_mul (js_div (js_sub score min') (js_sub max' min')) (Fin 100)))"

text \<open>
  The function that \<open>calculatePowerScores\<close> maps over the players: the three normalised
  signals, the weighted sum, and a copy of the player with \<open>power_score\<close> set to the sum
  rounded by \<^verbatim>\<open>Math.round(powerScore * 10) / 10\<close>.
\<close>

definition performanceWeight :: jsnum where "performanceWeight = Fin 0.4"
definition projectionWeight :: jsnum where "projectionWeight = Fin 0.35"
definition sleeperWeight :: jsnum where "sleeperWeight = Fin 0.25"

definition powerScore :: "'a PlayerRecord_scheme \<Rightarrow> jsnum" where
  "powerScore player =
     (let normalizedPerformance = normalizeScore (ToNumber (performance_score player)) (Fin 0) (Fin 100);
          normalizedProjection = normalizeScore (ToNumber (projection_score player)) (Fin 0) (Fin 100);
          normalizedSleeper = normalizeScore (ToNumber (sleeper_rating player)) (Fin 0) (Fin 10)
      in js_add
           (js_add (js_mul normalizedPerformance performanceWeight)
                   (js_mul normalizedProjection projectionWeight))
           (js_mul (js_mul normalizedSleeper sleeperWeight) (Fin 10)))"

definition annotate :: "'a PlayerRecord_scheme \<Rightarrow> 'a PlayerRecord_scheme" where
  "annotate player =
     player\<lparr>power_score := Some (js_div (Math_round (js_mul (powerScore player) (Fin 10))) (Fin 10))\<rparr>"

text \<open>The comparison function of the sort: \<^verbatim>\<open>(a, b) => b.power_score - a.power_score\<close>.\<close>

definition by_power_score :: "'a PlayerRecord_scheme \<Rightarrow> 'a PlayerRecord_scheme \<Rightarrow> jsnum" where
  "by_power_score a b = js_sub (ToNumber (power_score b)) (ToNumber (power_score a))"

definition calculatePowerScores :: "'a PlayerRecord_scheme list \<Rightarrow> 'a PlayerRecord_scheme list" where
  "calculatePowerScores players = js_sort by_power_score (map annotate players)"

text \<open>
  \<open>identifySleepers\<close>: the filter. The strict inequality \<^verbatim>\<open>!==\<close> against the string
  \<^verbatim>\<open>'High'\<close> holds for a missing \<open>risk_level\<close>.
\<close>

definition identifySleepers :: "'a PlayerRecord_scheme list \<Rightarrow> 'a PlayerRecord_scheme list" where
  "identifySleepers players =
     filter (\<lambda>player.
        js_gt (ToNumber (sleeper_rating player)) (Fin 7.5) \<and>
        js_gt (js_sub (ToNumber (expert_consensus_rank player)) (ToNumber (power_score player))) (Fin 10) \<and>
        risk_level player \<noteq> Some ''High'') players"


section \<open>The contract, in the words of the specification\<close>





text \<open>A player whose three signals are all present and none of them NaN.\<close>

definition has_signals :: "'a PlayerRecord_scheme \<Rightarrow> bool" where
  "has_signals p \<longleftrightarrow>
     ToNumber (performance_score p) \<noteq> NaN \<and> ToNumber (projection_score p) \<noteq> NaN \<and>
     ToNumber (sleeper_rating p) \<noteq> NaN"

text \<open>
  A property that is present and holds a finite Number, and the real it holds
  (\<open>value_of\<close> is only used where \<open>is_finite\<close> holds).
\<close>

fun is_finite :: "jsnum option \<Rightarrow> bool" where
  "is_finite (Some (Fin x)) = True"
| "is_finite v = False"

fun value_of :: "jsnum option \<Rightarrow> real" where
  "value_of (Some (Fin x)) = x"
| "value_of v = 0"



section \<open>Sample data\<close>

text \<open>
  Three of the players of the application's built-in sample data, with the
  \<open>power_score\<close> that the sample data carries, and a collection in which two players tie.
\<close>

definition mccaffrey :: PlayerRecord where
  "mccaffrey = \<lparr>player_id = 1, player_name = ''Christian McCaffrey'', team = ''SF'',
     position = ''RB'', performance_score = Some (Fin 96.1), projection_score = Some (Fin 92.3),
     sleeper_rating = Some (Fin 3.2), power_score = Some (Fin 94.2),
     expert_consensus_rank = Some (Fin 1), risk_level = Some ''Low''\<rparr>"

definition warren :: PlayerRecord where
  "warren = \<lparr>player_id = 3, player_name = ''Jaylen Warren'', team = ''PIT'',
     position = ''RB'', performance_score = Some (Fin 75.2), projection_score = Some (Fin 81.8),
     sleeper_rating = Some (Fin 8.9), power_score = Some (Fin 78.5),
     expert_consensus_rank = Some (Fin 28), risk_level = Some ''Medium''\<rparr>"

definition spears :: PlayerRecord where
  "spears = \<lparr>player_id = 4, player_name = ''Tyjae Spears'', team = ''TEN'',
     position = ''RB'', performance_score = Some (Fin 68.9), projection_score = Some (Fin 75.3),
     sleeper_rating = Some (Fin 9.2), power_score = Some (Fin 72.1),
     expert_consensus_rank = Some (Fin 45), risk_level = Some ''High''\<rparr>"

definition tied_players :: "PlayerRecord list" where
  "tied_players = [mccaffrey, spears, mccaffrey\<lparr>player_id := 6\<rparr>, warren]"

definition ranked_late :: "PlayerRecord list" where
  "ranked_late = [mccaffrey, warren\<lparr>expert_consensus_rank := Some (Fin 120)\<rparr>,
     spears\<lparr>expert_consensus_rank := Some (Fin 120)\<rparr>]"


section \<open>The arithmetic on finite values\<close>


lemma is_finiteE: "is_finite v \<Longrightarrow> (\<And>x. v = Some (Fin x) \<Longrightarrow> P) \<Longrightarrow> P"
  by (cases v rule: is_finite.cases) simp_all

lemma is_finite_value_of: "is_finite v \<Longrightarrow> v = Some (Fin (value_of v))"
  by (erule is_finiteE) simp



section \<open>The normaliser\<close>

lemma normalizeScore_Fin:
  "lo < hi \<Longrightarrow>
   normalizeScore (Fin v) (Fin lo) (Fin hi) = Fin (max 0 (min 100 ((v - lo) / (hi - lo) * 100)))"
  by (simp add: normalizeScore_def Math_max_def Math_min_def js_sub_def max_def min_def)

lemma normalizeScore_PosInf: "lo < hi \<Longrightarrow> normalizeScore PosInf (Fin lo) (Fin hi) = Fin 100"
  by (simp add: normalizeScore_def Math_max_def Math_min_def js_sub_def inf_of_sign_def)

lemma normalizeScore_NegInf: "lo < hi \<Longrightarrow> normalizeScore NegInf (Fin lo) (Fin hi) = Fin 0"
  by (simp add: normalizeScore_def Math_max_def Math_min_def js_sub_def inf_of_sign_def)


lemma normalizeScore_not_NaN:
  assumes "lo < hi" and "x \<noteq> NaN"
  shows "\<exists>r. normalizeScore x (Fin lo) (Fin hi) = Fin r \<and> 0 \<le> r \<and> r \<le> 100"
  using assms
  by (cases x) (simp_all add: normalizeScore_Fin normalizeScore_PosInf normalizeScore_NegInf)





section \<open>The power score\<close>






lemma annotate_has_signals:
  assumes "has_signals p"
  shows "\<exists>s. annotate p = p\<lparr>power_score := Some (Fin s)\<rparr>"
proof -
  from assms obtain r1
    where r1: "normalizeScore (ToNumber (performance_score p)) (Fin 0) (Fin 100) = Fin r1"
    using normalizeScore_not_NaN [of 0 100] by (auto simp: has_signals_def)
  from assms obtain r2
    where r2: "normalizeScore (ToNumber (projection_score p)) (Fin 0) (Fin 100) = Fin r2"
    using normalizeScore_not_NaN [of 0 100] by (auto simp: has_signals_def)
  from assms obtain r3
    where r3: "normalizeScore (ToNumber (sleeper_rating p)) (Fin 0) (Fin 10) = Fin r3"
    using normalizeScore_not_NaN [of 0 10] by (auto simp: has_signals_def)
  show ?thesis
    by (simp add: annotate_def powerScore_def r1 r2 r3 performanceWeight_def
          projectionWeight_def sleeperWeight_def) (rule exI, rule refl)
qed

lemma annotate_player_id: "annotate (p\<lparr>player_id := i\<rparr>) = (annotate p)\<lparr>player_id := i\<rparr>"
  by (simp add: annotate_def powerScore_def)

lemma annotate_mccaffrey: "annotate mccaffrey = mccaffrey\<lparr>power_score := Some (Fin 150.7)\<rparr>"
  by (simp add: mccaffrey_def annotate_def powerScore_def normalizeScore_Fin
      performanceWeight_def projectionWeight_def sleeperWeight_def)

lemma annotate_warren: "annotate warren = warren\<lparr>power_score := Some (Fin 281.2)\<rparr>"
  by (simp add: warren_def annotate_def powerScore_def normalizeScore_Fin
      performanceWeight_def projectionWeight_def sleeperWeight_def)

lemma annotate_spears: "annotate spears = spears\<lparr>power_score := Some (Fin 283.9)\<rparr>"
  by (simp add: spears_def annotate_def powerScore_def normalizeScore_Fin
      performanceWeight_def projectionWeight_def sleeperWeight_def)

subsection \<open>The sort\<close>

lemma mset_sort_insert: "mset (sort_insert cmp x ys) = add_mset x (mset ys)"
  by (induction ys) simp_all

lemma mset_js_sort: "mset (js_sort cmp xs) = mset xs"
  by (induction xs) (simp_all add: js_sort_def mset_sort_insert)


lemma length_js_sort: "length (js_sort cmp xs) = length xs"
  using mset_js_sort [of cmp xs] by (metis size_mset)

text \<open>
  On finite scores the comparison function is a consistent one, and the sort is the
  stable insertion sort of the library on the negated score.
\<close>

lemma sort_insert_insort_key:
  assumes "is_finite (power_score x)" and "\<forall>y\<in>set ys. is_finite (power_score y)"
  shows "sort_insert by_power_score x ys = insort_key (\<lambda>q. - value_of (power_score q)) x ys"
  using assms(2)
proof (induction ys)
  case Nil
  then show ?case by simp
next
  case (Cons y ys)
  from assms(1) obtain a where a: "power_score x = Some (Fin a)" by (rule is_finiteE)
  from Cons.prems obtain b where b: "power_score y = Some (Fin b)" by (auto elim: is_finiteE)
  from Cons show ?case
    by (simp add: by_power_score_def js_sub_def a b not_less)
qed

lemma js_sort_sort_key:
  assumes "\<forall>y\<in>set xs. is_finite (power_score y)"
  shows "js_sort by_power_score xs = sort_key (\<lambda>q. - value_of (power_score q)) xs"
  using assms
proof (induction xs)
  case Nil
  then show ?case by (simp add: js_sort_def)
next
  case (Cons x xs)
  then have IH: "js_sort by_power_score xs = sort_key (\<lambda>q. - value_of (power_score q)) xs"
    by simp
  have fin: "\<forall>y\<in>set (sort_key (\<lambda>q. - value_of (power_score q)) xs). is_finite (power_score y)"
    using Cons.prems by simp
  have "js_sort by_power_score (x # xs) = sort_insert by_power_score x (js_sort by_power_score xs)"
    by (simp add: js_sort_def)
  also have "\<dots> = insort_key (\<lambda>q. - value_of (power_score q)) x
                     (sort_key (\<lambda>q. - value_of (power_score q)) xs)"
    unfolding IH using Cons.prems fin by (intro sort_insert_insort_key) simp_all
  finally show ?case by (simp add: sort_key_def)
qed

subsection \<open>The composite score\<close>



text \<open>
  C2, as the code has it. A player with performance score 96.1, projection score 92.3
  and sleeper rating 3.2 has the normalised signals 96.1, 92.3 and 32, the composite
  96.1 * 0.40 + 92.3 * 0.35 + (32 * 10) * 0.25 = 150.745, and is returned with
  \<open>power_score\<close> 150.7.
\<close>

theorem calculatePowerScores_example:
  assumes "performance_score p = Some (Fin 96.1)" and "projection_score p = Some (Fin 92.3)"
    and "sleeper_rating p = Some (Fin 3.2)"
  shows "normalizeScore (ToNumber (performance_score p)) (Fin 0) (Fin 100) = Fin 96.1
       \<and> normalizeScore (ToNumber (projection_score p)) (Fin 0) (Fin 100) = Fin 92.3
       \<and> normalizeScore (ToNumber (sleeper_rating p)) (Fin 0) (Fin 10) = Fin 32
       \<and> powerScore p = Fin 150.745
       \<and> calculatePowerScores [p] = [p\<lparr>power_score := Some (Fin 150.7)\<rparr>]"
  using assms
  by (simp add: calculatePowerScores_def js_sort_def annotate_def powerScore_def
      normalizeScore_Fin performanceWeight_def projectionWeight_def sleeperWeight_def)

theorem calculatePowerScores_example_witness:
  "performance_score mccaffrey = Some (Fin 96.1) \<and> projection_score mccaffrey = Some (Fin 92.3)
   \<and> sleeper_rating mccaffrey = Some (Fin 3.2)
   \<and> map power_score (calculatePowerScores [mccaffrey]) = [Some (Fin 150.7)]"
  using calculatePowerScores_example [of mccaffrey] by (simp add: mccaffrey_def)

text \<open>
  C2 as stated fails: the sample player with exactly these three signals is returned
  with \<open>power_score\<close> 150.7, not 78.7.
\<close>

theorem calculatePowerScores_example_counterexample:
  "map power_score (calculatePowerScores [mccaffrey]) = [Some (Fin 150.7)]
   \<and> map power_score (calculatePowerScores [mccaffrey]) \<noteq> [Some (Fin 78.7)]"
  by (simp add: calculatePowerScores_def js_sort_def annotate_mccaffrey)

subsection \<open>The ranking\<close>

text \<open>
  C3. For every collection of players whose three signals are present and not NaN, the
  result has the length of the input; it is a permutation of the input players, each
  changed in \<open>power_score\<close> only, which is set to a finite score; the scores of the result
  are in descending order; and for every score the players with that score are in the
  order they have in the input.
\<close>

theorem calculatePowerScores_sorted_stable:
  assumes "\<forall>p\<in>set players. has_signals p"
  shows "length (calculatePowerScores players) = length players
       \<and> mset (calculatePowerScores players) = mset (map annotate players)
       \<and> (\<forall>p\<in>set players. \<exists>s. annotate p = p\<lparr>power_score := Some (Fin s)\<rparr>)
       \<and> (\<exists>ss. map power_score (calculatePowerScores players) = map (\<lambda>s. Some (Fin s)) ss
                \<and> sorted_wrt (\<ge>) ss)
       \<and> (\<forall>k. filter (\<lambda>q. power_score q = k) (calculatePowerScores players)
              = filter (\<lambda>q. power_score q = k) (map annotate players))"
proof -
  let ?key = "\<lambda>q::'a PlayerRecord_scheme. - value_of (power_score q)"
  let ?out = "calculatePowerScores players"
  have ann: "\<forall>p\<in>set players. \<exists>s. annotate p = p\<lparr>power_score := Some (Fin s)\<rparr>"
    using assms by (simp add: annotate_has_signals)
  have fin: "\<forall>q\<in>set (map annotate players). is_finite (power_score q)"
  proof
    fix q assume "q \<in> set (map annotate players)"
    then obtain p where "p \<in> set players" "q = annotate p" by auto
    with ann obtain s where "q = p\<lparr>power_score := Some (Fin s)\<rparr>" by metis
    then show "is_finite (power_score q)" by simp
  qed
  have out: "?out = sort_key ?key (map annotate players)"
    unfolding calculatePowerScores_def by (rule js_sort_sort_key [OF fin])
  have fin_out: "\<forall>q\<in>set ?out. is_finite (power_score q)"
    using fin by (simp add: out)
  have scores: "map power_score ?out
      = map (\<lambda>s. Some (Fin s)) (map (\<lambda>q. value_of (power_score q)) ?out)"
    using fin_out by (auto intro: is_finite_value_of)
  have "sorted (map ?key ?out)"
    unfolding out by (rule sorted_sort_key)
  then have desc: "sorted_wrt (\<ge>) (map (\<lambda>q. value_of (power_score q)) ?out)"
    by (simp add: sorted_wrt_map)
  have stable: "filter (\<lambda>q. power_score q = k) ?out
      = filter (\<lambda>q. power_score q = k) (map annotate players)" for k
  proof (cases "\<exists>s. k = Some (Fin s)")
    case True
    then obtain s where k: "k = Some (Fin s)" ..
    have key: "is_finite (power_score q) \<Longrightarrow> (power_score q = k) = (?key q = - s)"
      for q :: "'a PlayerRecord_scheme"
      by (auto simp: k elim: is_finiteE)
    have "filter (\<lambda>q. power_score q = k) ?out = filter (\<lambda>q. ?key q = - s) ?out"
      by (intro filter_cong refl key) (use fin_out in blast)
    also have "\<dots> = filter (\<lambda>q. ?key q = - s) (map annotate players)"
      unfolding out by (rule sort_key_stable)
    also have "\<dots> = filter (\<lambda>q. power_score q = k) (map annotate players)"
      by (intro filter_cong refl key [symmetric]) (use fin in blast)
    finally show ?thesis .
  next
    case False
    then have none: "is_finite (power_score q) \<Longrightarrow> power_score q \<noteq> k"
      for q :: "'a PlayerRecord_scheme"
      by (auto elim: is_finiteE)
    have "filter (\<lambda>q. power_score q = k) ?out = []"
      using fin_out none by (simp add: filter_empty_conv)
    moreover have "filter (\<lambda>q. power_score q = k) (map annotate players) = []"
      using fin none unfolding filter_empty_conv by blast
    ultimately show ?thesis by simp
  qed
  have len: "length ?out = length players"
    by (simp add: calculatePowerScores_def length_js_sort)
  have perm: "mset ?out = mset (map annotate players)"
    by (simp add: calculatePowerScores_def mset_js_sort)
  from scores desc
  have "\<exists>ss. map power_score ?out = map (\<lambda>s. Some (Fin s)) ss \<and> sorted_wrt (\<ge>) ss"
    by blast
  with len perm ann stable show ?thesis by blast
qed

theorem calculatePowerScores_sorted_stable_witness:
  "has_signals mccaffrey \<and> has_signals spears \<and> has_signals (mccaffrey\<lparr>player_id := 6\<rparr>)
   \<and> has_signals warren
   \<and> calculatePowerScores tied_players
      = [spears\<lparr>power_score := Some (Fin 283.9)\<rparr>, warren\<lparr>power_score := Some (Fin 281.2)\<rparr>,
         mccaffrey\<lparr>power_score := Some (Fin 150.7)\<rparr>,
         mccaffrey\<lparr>player_id := 6, power_score := Some (Fin 150.7)\<rparr>]
   \<and> length (calculatePowerScores tied_players) = length tied_players"
proof -
  have h: "\<forall>p\<in>set tied_players. has_signals p"
    by (simp add: tied_players_def has_signals_def mccaffrey_def spears_def warren_def)
  have v: "calculatePowerScores tied_players
      = [spears\<lparr>power_score := Some (Fin 283.9)\<rparr>, warren\<lparr>power_score := Some (Fin 281.2)\<rparr>,
         mccaffrey\<lparr>power_score := Some (Fin 150.7)\<rparr>,
         mccaffrey\<lparr>player_id := 6, power_score := Some (Fin 150.7)\<rparr>]"
    by (simp add: tied_players_def calculatePowerScores_def js_sort_def by_power_score_def
        js_sub_def annotate_player_id annotate_mccaffrey annotate_warren annotate_spears)
  from calculatePowerScores_sorted_stable [OF h]
  have "length (calculatePowerScores tied_players) = length tied_players" by (rule conjunct1)
  with h v show ?thesis by (simp add: tied_players_def)
qed

subsection \<open>A missing signal\<close>




section \<open>The sleepers\<close>

text \<open>
  C4. For every collection of players that carry a finite power score (and a finite
  sleeper rating and expert rank), \<open>identifySleepers\<close> returns exactly the players with
  sleeper rating above 7.5, expert rank minus power score above 10 and a risk level
  other than High, in their order in the input and all of them; no returned player has
  the risk level High, and the result is a subsequence of the input.
\<close>

theorem identifySleepers_exact:
  assumes "\<forall>p\<in>set players. is_finite (sleeper_rating p) \<and> is_finite (expert_consensus_rank p)
             \<and> is_finite (power_score p)"
  shows "identifySleepers players
           = filter (\<lambda>p. 7.5 < value_of (sleeper_rating p)
                       \<and> 10 < value_of (expert_consensus_rank p) - value_of (power_score p)
                       \<and> risk_level p \<noteq> Some ''High'') players
       \<and> (\<forall>q\<in>set (identifySleepers players). risk_level q \<noteq> Some ''High'')
       \<and> subseq (identifySleepers players) players"
proof (intro conjI)
  show "identifySleepers players
           = filter (\<lambda>p. 7.5 < value_of (sleeper_rating p)
                       \<and> 10 < value_of (expert_consensus_rank p) - value_of (power_score p)
                       \<and> risk_level p \<noteq> Some ''High'') players"
    unfolding identifySleepers_def
  proof (rule filter_cong [OF refl])
    fix p assume "p \<in> set players"
    with assms obtain s r w where "sleeper_rating p = Some (Fin s)"
      "expert_consensus_rank p = Some (Fin r)" "power_score p = Some (Fin w)"
      by (meson is_finiteE)
    then show "(js_gt (ToNumber (sleeper_rating p)) (Fin 7.5) \<and>
        js_gt (js_sub (ToNumber (expert_consensus_rank p)) (ToNumber (power_score p))) (Fin 10) \<and>
        risk_level p \<noteq> Some ''High'') =
       (7.5 < value_of (sleeper_rating p)
          \<and> 10 < value_of (expert_consensus_rank p) - value_of (power_score p)
          \<and> risk_level p \<noteq> Some ''High'')"
      by (simp add: js_sub_def)
  qed
  show "\<forall>q\<in>set (identifySleepers players). risk_level q \<noteq> Some ''High''"
    by (simp add: identifySleepers_def)
  show "subseq (identifySleepers players) players"
    by (simp add: identifySleepers_def)
qed

theorem identifySleepers_exact_witness:
  "list_all (\<lambda>p. is_finite (sleeper_rating p) \<and> is_finite (expert_consensus_rank p)
                 \<and> is_finite (power_score p)) ranked_late
   \<and> identifySleepers ranked_late = [warren\<lparr>expert_consensus_rank := Some (Fin 120)\<rparr>]
   \<and> risk_level (warren\<lparr>expert_consensus_rank := Some (Fin 120)\<rparr>) \<noteq> Some ''High''"
  using identifySleepers_exact [of ranked_late]
  by (simp add: ranked_late_def mccaffrey_def spears_def warren_def)

section \<open>The trend\<close>


















end
